theory Spec2Isabelle
  imports Main "HOL-Library.Word"
begin

unbundle bit_operations_syntax

section \<open>Clock-divider test firmware (test/clkspd.c)\<close>

text \<open>
  The firmware is compiled by SDCC for the 8051: \<open>uint8_t\<close> is an 8-bit word, \<open>int\<close> and
  \<open>unsigned int\<close> are 16 bits wide. The macros of the file keep their names without the
  leading underscore, which an Isabelle identifier cannot start with.
\<close>

type_synonym uint8_t = "8 word"

text \<open>\<^verbatim>\<open>#define _CLKSPD_OFFSET (3)\<close>\<close>

definition CLKSPD_OFFSET :: nat where
  "CLKSPD_OFFSET = 3"

text \<open>\<^verbatim>\<open>#define _CLKSPD0 (1U << _CLKSPD_OFFSET)\<close>\<close>

definition CLKSPD0 :: "16 word" where
  "CLKSPD0 = push_bit CLKSPD_OFFSET 1"

text \<open>\<^verbatim>\<open>#define _CLKSPD1 (1U << (_CLKSPD_OFFSET + 1))\<close>\<close>

definition CLKSPD1 :: "16 word" where
  "CLKSPD1 = push_bit (CLKSPD_OFFSET + 1) 1"

text \<open>\<^verbatim>\<open>#define _CLKSPD_MASK (_CLKSPD0 | _CLKSPD1)\<close>\<close>

definition CLKSPD_MASK :: "16 word" where
  "CLKSPD_MASK = CLKSPD0 OR CLKSPD1"

text \<open>
  The state of \<open>main\<close> in test/clkspd.c: the memory-mapped register \<open>CPUCS\<close> (xdata 0xe600)
  and the two locals. The counter \<open>i\<close> only takes the values 0 to 10, so it is an
  unbounded integer here.
\<close>

record clk_state =
  CPUCS :: uint8_t
  i :: int
  cpuspd :: uint8_t

text \<open>The delay loop \<^verbatim>\<open>while (i < 10) { i++; }\<close>.\<close>

function delay_loop :: "int \<Rightarrow> int" where
  "delay_loop n = (if n < 10 then delay_loop (n + 1) else n)"
  by pat_completeness auto
termination
  by (relation "measure (\<lambda>n. nat (10 - n))") auto

text \<open>
  One pass through the body of \<^verbatim>\<open>while (1)\<close>, statement by statement. In
  \<^verbatim>\<open>(CPUCS & _CLKSPD_MASK) >> _CLKSPD_OFFSET\<close> the register is promoted to 16 bits
  before the mask applies and the result is truncated to \<open>uint8_t\<close> by the assignment;
  \<^verbatim>\<open>cpuspd << _CLKSPD_OFFSET\<close> is again computed in 16 bits and truncated when it
  is stored in \<open>CPUCS\<close>.
\<close>

definition clkspd_loop_body :: "clk_state \<Rightarrow> clk_state" where
  "clkspd_loop_body s =
    (let s1 = s\<lparr>i := 0\<rparr>;
         s2 = s1\<lparr>i := delay_loop (i s1)\<rparr>;
         s3 = s2\<lparr>cpuspd :=
                 ucast (drop_bit CLKSPD_OFFSET ((ucast (CPUCS s2) :: 16 word) AND CLKSPD_MASK))\<rparr>;
         s4 = s3\<lparr>cpuspd := cpuspd s3 + 1\<rparr>;
         s5 = (if cpuspd s4 > 2 then s4\<lparr>cpuspd := 0\<rparr> else s4)
     in s5\<lparr>CPUCS := ucast (push_bit CLKSPD_OFFSET (ucast (cpuspd s5) :: 16 word))\<rparr>)"

text \<open>
  \<open>main\<close> of test/clkspd.c never returns: \<open>clkspd_run n s\<close> is the state after the
  first \<open>n\<close> passes of its \<^verbatim>\<open>while (1)\<close> from the state \<open>s\<close>.
\<close>

fun clkspd_run :: "nat \<Rightarrow> clk_state \<Rightarrow> clk_state" where
  "clkspd_run 0 s = s"
| "clkspd_run (Suc n) s = clkspd_run n (clkspd_loop_body s)"

text \<open>
  The CLKSPD field of a register value: bits 3 and 4, read as a number from 0 to 3.
\<close>

definition CLKSPD_field :: "uint8_t \<Rightarrow> uint8_t" where
  "CLKSPD_field c = drop_bit CLKSPD_OFFSET (c AND ucast CLKSPD_MASK)"

text \<open>
  The three dividers of the specification, their encoding in the field, and the
  round-robin order DIV1, DIV2, DIV4, DIV1 as the specification words it.
\<close>

datatype clk_div = DIV1 | DIV2 | DIV4

definition clk_div_of :: "uint8_t \<Rightarrow> clk_div option" where
  "clk_div_of f =
    (if f = 0 then Some DIV1 else if f = 1 then Some DIV2 else if f = 2 then Some DIV4 else None)"

fun spec_next_div :: "clk_div \<Rightarrow> clk_div" where
  "spec_next_div DIV1 = DIV2"
| "spec_next_div DIV2 = DIV4"
| "spec_next_div DIV4 = DIV1"

section \<open>USB firmware (firmware/fx2usb/main.c and test-libfx2/main.c)\<close>

subsection \<open>Descriptor types\<close>

type_synonym uint16_t = "16 word"

text \<open>
  Modelled from the spec: the structure \<open>usb_desc_device\<close> is declared in the libfx2
  header usbdefs.h, which is not under src/. The fields are those the initialisers of
  main.c name, in their order, with the sizes of the standard 18-byte device descriptor
  that the specification refers to (16 bits for \<open>bcdUSB\<close>, \<open>idVendor\<close>, \<open>idProduct\<close> and
  \<open>bcdDevice\<close>, 8 bits for the others).
\<close>

record usb_desc_device =
  bLength :: uint8_t
  bDescriptorType :: uint8_t
  bcdUSB :: uint16_t
  bDeviceClass :: uint8_t
  bDeviceSubClass :: uint8_t
  bDeviceProtocol :: uint8_t
  bMaxPacketSize0 :: uint8_t
  idVendor :: uint16_t
  idProduct :: uint16_t
  bcdDevice :: uint16_t
  iManufacturer :: uint8_t
  iProduct :: uint8_t
  iSerialNumber :: uint8_t
  bNumConfigurations :: uint8_t

text \<open>
  Modelled from the spec: \<open>sizeof(struct usb_desc_device)\<close>, the sum of the field sizes
  above (SDCC does not pad structures), the 18 bytes of the specification.
\<close>

definition sizeof_usb_desc_device :: nat where
  "sizeof_usb_desc_device = 1 + 1 + 2 + 1 + 1 + 1 + 1 + 2 + 2 + 2 + 1 + 1 + 1 + 1"

text \<open>
  Modelled from the spec: the header of a configuration, \<open>struct usb_desc_configuration\<close>
  of usbdefs.h (not under src/): the 9-byte header of the specification. The field
  \<open>wTotalLength\<close> is the one member that the initialisers of main.c do not name. The two
  fields that every descriptor starts with carry the prefix \<open>cfg_\<close> here, since the
  device descriptor above has them already.
\<close>

record usb_desc_configuration =
  cfg_bLength :: uint8_t
  cfg_bDescriptorType :: uint8_t
  wTotalLength :: uint16_t
  bNumInterfaces :: uint8_t
  bConfigurationValue :: uint8_t
  iConfiguration :: uint8_t
  bmAttributes :: uint8_t
  bMaxPower :: uint8_t

text \<open>
  Modelled from the spec: \<open>sizeof(struct usb_desc_configuration)\<close>, the sum of the field
  sizes above, the 9 bytes of the specification.
\<close>

definition sizeof_usb_desc_configuration :: nat where
  "sizeof_usb_desc_configuration = 1 + 1 + 2 + 1 + 1 + 1 + 1 + 1"

text \<open>
  Modelled from the spec: the entries that follow the header of a configuration (the
  union \<open>usb_config_item\<close> of libfx2, not under src/). The specification has an ordered,
  possibly empty sequence of interface and endpoint sub-descriptors there, whose contents
  play no role in this development, so an entry is its kind only; \<open>Item_null\<close> is the
  all-zero entry \<^verbatim>\<open>{ 0 }\<close>, the only one that main.c writes.
\<close>

datatype usb_config_item = Item_null | Item_interface | Item_endpoint

text \<open>
  Modelled from the spec: a configuration (\<open>struct usb_configuration\<close> of libfx2, not
  under src/) is its header followed by the sequence of entries.
\<close>

record usb_configuration =
  desc :: usb_desc_configuration
  items :: "usb_config_item list"

text \<open>
  Modelled from the spec: the Descriptor Set (\<open>struct usb_descriptor_set\<close> of libfx2, not
  under src/) binds one device descriptor, the sequence of configurations and the string
  table, plus their counts. The pointers of the C structure are the pointed-to constant
  data here.
\<close>

record usb_descriptor_set =
  device :: usb_desc_device
  config_count :: uint8_t
  configs :: "usb_configuration list"
  string_count :: uint8_t
  strings :: "string list"

text \<open>
  The constants of usbdefs.h (not under src/) that the initialisers use follow. The
  specification only says that the class codes are the "defer to interface" sentinel and
  that \<open>bmAttributes\<close> is a bitmap; the values are those of the USB 2.0 standard, and no
  theorem below depends on them.
\<close>

text \<open>Modelled from the spec: the descriptor type of a device descriptor (usbdefs.h).\<close>

definition USB_DESC_DEVICE :: uint8_t where
  "USB_DESC_DEVICE = 1"

text \<open>Modelled from the spec: the descriptor type of a configuration (usbdefs.h).\<close>

definition USB_DESC_CONFIGURATION :: uint8_t where
  "USB_DESC_CONFIGURATION = 2"

text \<open>Modelled from the spec: the "defer to interface" device class (usbdefs.h).\<close>

definition USB_DEV_CLASS_PER_INTERFACE :: uint8_t where
  "USB_DEV_CLASS_PER_INTERFACE = 0"

text \<open>Modelled from the spec: the "defer to interface" device subclass (usbdefs.h).\<close>

definition USB_DEV_SUBCLASS_PER_INTERFACE :: uint8_t where
  "USB_DEV_SUBCLASS_PER_INTERFACE = 0"

text \<open>Modelled from the spec: the "defer to interface" device protocol (usbdefs.h).\<close>

definition USB_DEV_PROTOCOL_PER_INTERFACE :: uint8_t where
  "USB_DEV_PROTOCOL_PER_INTERFACE = 0"

text \<open>Modelled from the spec: the reserved bit 7 of the power-attribute bitmap (usbdefs.h).\<close>

definition USB_ATTR_RESERVED_1 :: uint8_t where
  "USB_ATTR_RESERVED_1 = 0x80"

text \<open>
  Modelled from the spec: the macro \<open>ARRAYSIZE\<close> of fx2lib.h (not under src/) gives the
  counts of the Descriptor Set: the number of elements of the array.
\<close>

definition ARRAYSIZE :: "'a list \<Rightarrow> uint8_t" where
  "ARRAYSIZE xs = of_nat (length xs)"

subsection \<open>The descriptors of firmware/fx2usb/main.c\<close>

definition usb_device :: usb_desc_device where
  "usb_device =
    \<lparr> bLength = of_nat sizeof_usb_desc_device,
      bDescriptorType = USB_DESC_DEVICE,
      bcdUSB = 0x0200,
      bDeviceClass = USB_DEV_CLASS_PER_INTERFACE,
      bDeviceSubClass = USB_DEV_SUBCLASS_PER_INTERFACE,
      bDeviceProtocol = USB_DEV_PROTOCOL_PER_INTERFACE,
      bMaxPacketSize0 = 64,
      idVendor = 0x04b4,
      idProduct = 0x8613,
      bcdDevice = 0x0000,
      iManufacturer = 1,
      iProduct = 2,
      iSerialNumber = 0,
      bNumConfigurations = 1 \<rparr>"

definition usb_config :: usb_configuration where
  "usb_config =
    \<lparr> desc =
        \<lparr> cfg_bLength = of_nat sizeof_usb_desc_configuration,
          cfg_bDescriptorType = USB_DESC_CONFIGURATION,
          wTotalLength = 0,
          bNumInterfaces = 0,
          bConfigurationValue = 1,
          iConfiguration = 0,
          bmAttributes = USB_ATTR_RESERVED_1,
          bMaxPower = 50 \<rparr>,
      items = [Item_null] \<rparr>"

definition usb_configs :: "usb_configuration list" where
  "usb_configs = [usb_config]"

definition usb_strings :: "string list" where
  "usb_strings = [''Antmicro'', ''FX2 simulation example firmware'']"

definition usb_descriptor_set :: usb_descriptor_set where
  "usb_descriptor_set =
    \<lparr> device = usb_device,
      config_count = ARRAYSIZE usb_configs,
      configs = usb_configs,
      string_count = ARRAYSIZE usb_strings,
      strings = usb_strings \<rparr>"

subsection \<open>The descriptors of test-libfx2/main.c\<close>

text \<open>
  The second firmware image defines the same names; they carry the prefix \<open>test_\<close> here.
\<close>

definition test_usb_device :: usb_desc_device where
  "test_usb_device =
    \<lparr> bLength = of_nat sizeof_usb_desc_device,
      bDescriptorType = USB_DESC_DEVICE,
      bcdUSB = 0x0200,
      bDeviceClass = USB_DEV_CLASS_PER_INTERFACE,
      bDeviceSubClass = USB_DEV_SUBCLASS_PER_INTERFACE,
      bDeviceProtocol = USB_DEV_PROTOCOL_PER_INTERFACE,
      bMaxPacketSize0 = 64,
      idVendor = 0x04b4,
      idProduct = 0x8613,
      bcdDevice = 0x0000,
      iManufacturer = 1,
      iProduct = 2,
      iSerialNumber = 0,
      bNumConfigurations = 1 \<rparr>"

definition test_usb_config :: usb_configuration where
  "test_usb_config =
    \<lparr> desc =
        \<lparr> cfg_bLength = of_nat sizeof_usb_desc_configuration,
          cfg_bDescriptorType = USB_DESC_CONFIGURATION,
          wTotalLength = 0,
          bNumInterfaces = 2,
          bConfigurationValue = 1,
          iConfiguration = 0,
          bmAttributes = USB_ATTR_RESERVED_1,
          bMaxPower = 50 \<rparr>,
      items = [Item_null] \<rparr>"

definition test_usb_configs :: "usb_configuration list" where
  "test_usb_configs = [test_usb_config]"

definition test_usb_strings :: "string list" where
  "test_usb_strings = [''whitequark@whitequark.org'', ''FX2 series serial interface example'']"

definition test_usb_descriptor_set :: usb_descriptor_set where
  "test_usb_descriptor_set =
    \<lparr> device = test_usb_device,
      config_count = ARRAYSIZE test_usb_configs,
      configs = test_usb_configs,
      string_count = ARRAYSIZE test_usb_strings,
      strings = test_usb_strings \<rparr>"

subsection \<open>Properties of a descriptor set\<close>

text \<open>
  The string indices that the device descriptor and the configuration descriptors of a
  set refer to.
\<close>

definition string_indices :: "usb_descriptor_set \<Rightarrow> uint8_t list" where
  "string_indices ds =
    [iManufacturer (device ds), iProduct (device ds), iSerialNumber (device ds)]
      @ map (\<lambda>c. iConfiguration (desc c)) (configs ds)"

text \<open>The number of interface descriptors appended to a configuration.\<close>

definition interface_count :: "usb_configuration \<Rightarrow> nat" where
  "interface_count c = length (filter (\<lambda>x. x = Item_interface) (items c))"

text \<open>
  Modelled from the spec: no function of the repository serialises a descriptor (the
  bytes are the memory image that SDCC gives the constant structure, copied out by
  libfx2). The specification asks for the USB-standard field order and sizes; 16-bit
  fields are stored low byte first.
\<close>

definition le16 :: "uint16_t \<Rightarrow> uint8_t list" where
  "le16 w = [ucast w, ucast (drop_bit 8 w)]"

text \<open>
  Modelled from the spec: the bytes of a device descriptor, its fields in the order of
  the structure, each in its size.
\<close>

definition serialize_device :: "usb_desc_device \<Rightarrow> uint8_t list" where
  "serialize_device d =
    [bLength d, bDescriptorType d] @ le16 (bcdUSB d)
      @ [bDeviceClass d, bDeviceSubClass d, bDeviceProtocol d, bMaxPacketSize0 d]
      @ le16 (idVendor d) @ le16 (idProduct d) @ le16 (bcdDevice d)
      @ [iManufacturer d, iProduct d, iSerialNumber d, bNumConfigurations d]"


subsection \<open>The Control-Dispatch Loop (main of firmware/fx2usb/main.c)\<close>

text \<open>
  The part of the machine that \<open>main\<close> touches: the interrupt-status register \<open>USBIRQ\<close>,
  the array \<open>scratch\<close> in xdata (at 0xe000, as the comments of main.c say; only the
  constant indices 0, 1 and 2 are used), and the Descriptor Set of the image.
\<close>

record fx2 =
  USBIRQ :: uint8_t
  scratch :: "nat \<Rightarrow> uint8_t"
  descriptors :: usb_descriptor_set

text \<open>
  What \<open>main\<close> uses and the repository does not define, taken as parameters: the handler
  \<open>isr_SUDAV\<close> of the external engine (libfx2), the bit mask \<open>_SUDAV\<close> of the register
  header, and \<open>hardware\<close>, what the device does to the machine between two reads of the
  volatile register \<open>USBIRQ\<close>.
\<close>

record extern =
  isr_SUDAV :: "fx2 \<Rightarrow> fx2"
  SUDAV :: uint8_t
  hardware :: "fx2 \<Rightarrow> fx2"

text \<open>
  What an observer of \<open>main\<close> sees: each read of \<open>USBIRQ\<close> with the value read, each
  write to a cell of \<open>scratch\<close> with the index and the value, each call of the handler.
\<close>

datatype event = Read_USBIRQ uint8_t | Write_scratch nat uint8_t | Call_isr_SUDAV

text \<open>
  The busy-wait \<^verbatim>\<open>while ((USBIRQ & _SUDAV) == 0) { (void) 0; }\<close>. It has no bound:
  where the bit never comes, the result is \<open>None\<close>.
\<close>

partial_function (option) wait_SUDAV ::
  "extern \<Rightarrow> event list \<Rightarrow> fx2 \<Rightarrow> (event list \<times> fx2) option" where
  "wait_SUDAV ext tr m =
    (if USBIRQ m AND SUDAV ext = 0
     then wait_SUDAV ext (tr @ [Read_USBIRQ (USBIRQ m)]) (hardware ext m)
     else Some (tr @ [Read_USBIRQ (USBIRQ m)], m))"

text \<open>The two marker writes \<^verbatim>\<open>scratch[1] = scratch[0]\<close> and \<^verbatim>\<open>scratch[2] = scratch[0]\<close>.\<close>

definition pre_marker :: "fx2 \<Rightarrow> fx2" where
  "pre_marker m = m\<lparr>scratch := (scratch m)(1 := scratch m 0)\<rparr>"

definition post_marker :: "fx2 \<Rightarrow> fx2" where
  "post_marker m = m\<lparr>scratch := (scratch m)(2 := scratch m 0)\<rparr>"

text \<open>One pass through the body of \<^verbatim>\<open>while (1)\<close>, with the events it adds to the trace.\<close>

definition dispatch_loop_body ::
  "extern \<Rightarrow> event list \<Rightarrow> fx2 \<Rightarrow> (event list \<times> fx2) option" where
  "dispatch_loop_body ext tr m =
    (case wait_SUDAV ext tr m of
       None \<Rightarrow> None
     | Some (tr1, m1) \<Rightarrow>
         (let tr2 = tr1 @ [Write_scratch 1 (scratch m1 0)];
              m2 = pre_marker m1;
              tr3 = tr2 @ [Call_isr_SUDAV];
              m3 = isr_SUDAV ext m2;
              tr4 = tr3 @ [Write_scratch 2 (scratch m3 0)];
              m4 = post_marker m3
          in Some (tr4, m4)))"

text \<open>
  \<open>main\<close> never returns: \<open>dispatch_run ext n tr m\<close> is the trace and the machine after the
  first \<open>n\<close> passes of its \<^verbatim>\<open>while (1)\<close>, or \<open>None\<close> when one of them waits for ever.
\<close>

fun dispatch_run :: "extern \<Rightarrow> nat \<Rightarrow> event list \<Rightarrow> fx2 \<Rightarrow> (event list \<times> fx2) option" where
  "dispatch_run ext 0 tr m = Some (tr, m)"
| "dispatch_run ext (Suc n) tr m =
    (case dispatch_loop_body ext tr m of
       None \<Rightarrow> None
     | Some (tr', m') \<Rightarrow> dispatch_run ext n tr' m')"

text \<open>What one pass adds to the trace when the bit is set at its first read.\<close>

definition pass_events :: "extern \<Rightarrow> fx2 \<Rightarrow> event list" where
  "pass_events ext m =
    [Read_USBIRQ (USBIRQ m),
     Write_scratch 1 (scratch m 0),
     Call_isr_SUDAV,
     Write_scratch 2 (scratch (isr_SUDAV ext (pre_marker m)) 0)]"

definition pass_state :: "extern \<Rightarrow> fx2 \<Rightarrow> fx2" where
  "pass_state ext m = post_marker (isr_SUDAV ext (pre_marker m))"

text \<open>Counting in a trace: the calls of the handler, the reads of the register.\<close>

definition calls :: "event list \<Rightarrow> nat" where
  "calls tr = length (filter (\<lambda>e. e = Call_isr_SUDAV) tr)"

fun is_read :: "event \<Rightarrow> bool" where
  "is_read (Read_USBIRQ v) = True"
| "is_read e = False"

definition reads :: "event list \<Rightarrow> nat" where
  "reads tr = length (filter is_read tr)"

text \<open>The cells of \<open>scratch\<close> that a trace writes.\<close>

fun written_cells :: "event list \<Rightarrow> nat list" where
  "written_cells [] = []"
| "written_cells (Write_scratch k v # tr) = k # written_cells tr"
| "written_cells (e # tr) = written_cells tr"

subsection \<open>Sample machines\<close>

text \<open>
  Two engines for concrete runs: one whose handler clears the register and leaves 0xA5 in
  \<open>scratch[0]\<close>, one whose handler leaves the machine as it is; and a machine with the
  bit set and 0x5A in \<open>scratch[0]\<close>.
\<close>

definition clearing_extern :: extern where
  "clearing_extern =
    \<lparr>isr_SUDAV = (\<lambda>x. x\<lparr>USBIRQ := 0, scratch := (scratch x)(0 := 0xA5)\<rparr>),
     SUDAV = 1,
     hardware = (\<lambda>x. x)\<rparr>"

definition stuck_extern :: extern where
  "stuck_extern = \<lparr>isr_SUDAV = (\<lambda>x. x), SUDAV = 1, hardware = (\<lambda>x. x)\<rparr>"

definition sample_fx2 :: fx2 where
  "sample_fx2 = \<lparr>USBIRQ = 1, scratch = (\<lambda>k. 0)(0 := 0x5A), descriptors = usb_descriptor_set\<rparr>"


section \<open>The clock divider: lemmas\<close>

lemma CLKSPD_MASK_value: "CLKSPD_MASK = push_bit 3 (mask 2)"
  by (simp add: CLKSPD_MASK_def CLKSPD0_def CLKSPD1_def CLKSPD_OFFSET_def mask_eq_exp_minus_1)

lemma CLKSPD_MASK_byte: "(ucast CLKSPD_MASK :: uint8_t) = 0x18"
  by (simp add: CLKSPD_MASK_def CLKSPD0_def CLKSPD1_def CLKSPD_OFFSET_def)

lemma take_bit_2_cases: "take_bit 2 (x :: uint8_t) \<in> {0, 1, 2, 3}"
proof -
  have "unat (take_bit 2 x) < 2 ^ 2"
    by (simp only: unsigned_take_bit_eq take_bit_nat_less_exp)
  then have "unat (take_bit 2 x) \<in> {0, 1, 2, 3}"
    by auto
  then show ?thesis
    by (auto simp: word_unat_eq_iff)
qed

lemma CLKSPD_field_take_bit: "CLKSPD_field c = take_bit 2 (drop_bit 3 c)"
  by (simp add: CLKSPD_field_def CLKSPD_MASK_value CLKSPD_OFFSET_def bit_eq_iff bit_simps) auto

text \<open>The 16-bit computation of the source reads the same number as the 8-bit field.\<close>

lemma read_is_CLKSPD_field:
  "(ucast (drop_bit CLKSPD_OFFSET ((ucast (c :: uint8_t) :: 16 word) AND CLKSPD_MASK)) :: uint8_t)
     = CLKSPD_field c"
  by (simp add: CLKSPD_field_def CLKSPD_MASK_value CLKSPD_OFFSET_def bit_eq_iff bit_simps) auto

lemma CLKSPD_field_cases: "CLKSPD_field c \<in> {0, 1, 2, 3}"
  using take_bit_2_cases [of "drop_bit 3 c"] by (simp only: CLKSPD_field_take_bit)

lemma CLKSPD_field_values:
  "CLKSPD_field 0 = 0" "CLKSPD_field 8 = 1" "CLKSPD_field 16 = 2" "CLKSPD_field 24 = 3"
  by (simp_all add: CLKSPD_field_take_bit)

lemma loop_body_cpuspd:
  "cpuspd (clkspd_loop_body s) =
     (if CLKSPD_field (CPUCS s) = 0 then 1 else if CLKSPD_field (CPUCS s) = 1 then 2 else 0)"
  using CLKSPD_field_cases [of "CPUCS s"]
  by (auto simp add: clkspd_loop_body_def Let_def read_is_CLKSPD_field simp del: drop_bit_and)

lemma loop_body_CPUCS:
  "CPUCS (clkspd_loop_body s) =
     (if CLKSPD_field (CPUCS s) = 0 then 8 else if CLKSPD_field (CPUCS s) = 1 then 16 else 0)"
  using CLKSPD_field_cases [of "CPUCS s"]
  by (auto simp add: clkspd_loop_body_def Let_def read_is_CLKSPD_field simp del: drop_bit_and)
    (simp_all add: CLKSPD_OFFSET_def)

lemma loop_body_field:
  "CLKSPD_field (CPUCS (clkspd_loop_body s)) =
     (if CLKSPD_field (CPUCS s) = 0 then 1 else if CLKSPD_field (CPUCS s) = 1 then 2 else 0)"
  by (simp add: loop_body_CPUCS CLKSPD_field_values)

lemma clkspd_run_Suc: "clkspd_run (Suc n) s = clkspd_loop_body (clkspd_run n s)"
  by (induction n arbitrary: s) simp_all

lemma loop_body_next_div:
  "clk_div_of (CLKSPD_field (CPUCS s)) = Some d \<Longrightarrow>
   clk_div_of (CLKSPD_field (CPUCS (clkspd_loop_body s))) = Some (spec_next_div d)"
  by (auto simp add: loop_body_field clk_div_of_def split: if_splits)

section \<open>The clock divider: claims\<close>

text \<open>
  C2. Started with one of the three valid values in the CLKSPD field of \<open>CPUCS\<close>, the loop
  of \<open>main\<close> advances the field in the round-robin order DIV1, DIV2, DIV4, DIV1: after
  \<open>n\<close> transitions the field encodes the \<open>n\<close>-th successor of the starting divider, so
  each transition goes from a divider to its successor; and the field never holds 3
  (binary 11).
\<close>

theorem clkspd_round_robin:
  assumes "clk_div_of (CLKSPD_field (CPUCS s)) = Some d"
  shows "clk_div_of (CLKSPD_field (CPUCS (clkspd_run n s))) = Some ((spec_next_div ^^ n) d)
       \<and> CLKSPD_field (CPUCS (clkspd_run n s)) \<noteq> 3"
proof -
  have run: "clk_div_of (CLKSPD_field (CPUCS (clkspd_run n s))) = Some ((spec_next_div ^^ n) d)"
  proof (induction n)
    case 0
    show ?case using assms by simp
  next
    case (Suc n)
    show ?case
      using loop_body_next_div [OF Suc.IH] by (simp only: clkspd_run_Suc funpow.simps o_apply)
  qed
  moreover have "CLKSPD_field (CPUCS (clkspd_run n s)) \<noteq> 3"
    using run by (auto simp add: clk_div_of_def)
  ultimately show ?thesis by simp
qed

theorem clkspd_round_robin_witness:
  "clk_div_of (CLKSPD_field (CPUCS \<lparr>CPUCS = 0x0A, i = 0, cpuspd = 0\<rparr>)) = Some DIV2
   \<and> clk_div_of (CLKSPD_field (CPUCS (clkspd_run 2 \<lparr>CPUCS = 0x0A, i = 0, cpuspd = 0\<rparr>)))
       = Some DIV1
   \<and> CLKSPD_field (CPUCS (clkspd_run 2 \<lparr>CPUCS = 0x0A, i = 0, cpuspd = 0\<rparr>)) \<noteq> 3"
proof -
  have start: "clk_div_of (CLKSPD_field (CPUCS \<lparr>CPUCS = 0x0A, i = 0, cpuspd = 0\<rparr>)) = Some DIV2"
    by (simp add: clk_div_of_def CLKSPD_field_take_bit)
  show ?thesis
    using start clkspd_round_robin [OF start, of 2] by (simp add: numeral_2_eq_2)
qed

text \<open>
  C3, as the code has it. The value that a transition writes to \<open>CPUCS\<close> has every bit
  outside the CLKSPD field (every bit other than bits 3 and 4) equal to 0, whatever the
  value read: the write is \<^verbatim>\<open>CPUCS = cpuspd << _CLKSPD_OFFSET\<close>, which carries nothing
  of the value read but the field.
\<close>

theorem clkspd_write_clears_other_bits:
  "CPUCS (clkspd_loop_body s) AND NOT (ucast CLKSPD_MASK) = 0"
  by (simp add: loop_body_CPUCS CLKSPD_MASK_byte)

text \<open>
  C3, as stated, fails: from the register value 0x02 (bit 1 set, field 00) the transition
  writes 0x08, so bit 1 is not preserved.
\<close>

theorem clkspd_other_bits_lost:
  "CPUCS (clkspd_loop_body \<lparr>CPUCS = 0x02, i = 0, cpuspd = 0\<rparr>) AND NOT (ucast CLKSPD_MASK)
     \<noteq> CPUCS \<lparr>CPUCS = 0x02, i = 0, cpuspd = 0\<rparr> AND NOT (ucast CLKSPD_MASK)"
  by (simp add: loop_body_CPUCS CLKSPD_MASK_byte CLKSPD_field_take_bit)

text \<open>
  C9. If the CLKSPD field of \<open>CPUCS\<close> holds a value greater than 2 at the start of a
  transition, which is the value 3 (binary 11) and no other, then the increment-and-wrap
  step leaves 0 in \<open>cpuspd\<close> and the field written is 0 (DIV1).
\<close>

theorem clkspd_invalid_wraps:
  assumes "2 < CLKSPD_field (CPUCS s)"
  shows "CLKSPD_field (CPUCS s) = 3 \<and> cpuspd (clkspd_loop_body s) = 0
         \<and> CLKSPD_field (CPUCS (clkspd_loop_body s)) = 0"
  using assms CLKSPD_field_cases [of "CPUCS s"]
  by (auto simp add: loop_body_cpuspd loop_body_field)

theorem clkspd_invalid_wraps_witness:
  "CLKSPD_field (CPUCS \<lparr>CPUCS = 0x1A, i = 0, cpuspd = 0\<rparr>) = 3
   \<and> CLKSPD_field (CPUCS (clkspd_loop_body \<lparr>CPUCS = 0x1A, i = 0, cpuspd = 0\<rparr>)) = 0"
proof -
  have invalid: "2 < CLKSPD_field (CPUCS \<lparr>CPUCS = 0x1A, i = 0, cpuspd = 0\<rparr>)"
    by (simp add: CLKSPD_field_take_bit)
  show ?thesis
    using clkspd_invalid_wraps [OF invalid] by simp
qed

text \<open>
  C10. The byte that a transition writes to \<open>CPUCS\<close> depends only on bits 3 and 4 of the
  byte it reads: two states whose registers agree under the mask write the same byte,
  whatever their other bits and their locals.
\<close>

theorem clkspd_depends_on_field_only:
  assumes "CPUCS s AND ucast CLKSPD_MASK = CPUCS t AND ucast CLKSPD_MASK"
  shows "CPUCS (clkspd_loop_body s) = CPUCS (clkspd_loop_body t)"
proof -
  have "CLKSPD_field (CPUCS s) = CLKSPD_field (CPUCS t)"
    using assms by (simp add: CLKSPD_field_def)
  then show ?thesis
    by (simp add: loop_body_CPUCS)
qed

theorem clkspd_depends_on_field_only_witness:
  "CPUCS (clkspd_loop_body \<lparr>CPUCS = 0x0B, i = 0, cpuspd = 0\<rparr>)
     = CPUCS (clkspd_loop_body \<lparr>CPUCS = 0xE8, i = 7, cpuspd = 1\<rparr>)"
proof -
  have agree: "CPUCS \<lparr>CPUCS = 0x0B, i = 0, cpuspd = 0\<rparr> AND ucast CLKSPD_MASK
         = CPUCS \<lparr>CPUCS = 0xE8, i = 7, cpuspd = 1\<rparr> AND ucast CLKSPD_MASK"
    by (simp add: CLKSPD_MASK_byte)
  show ?thesis
    using clkspd_depends_on_field_only [OF agree] .
qed

section \<open>The descriptors: claims\<close>

lemma sizeof_usb_desc_device_value: "sizeof_usb_desc_device = 18"
  by (simp add: sizeof_usb_desc_device_def)

text \<open>
  C4, as the code has it. String indices are 1-based (index \<open>k\<close> names \<open>strings[k - 1]\<close>,
  0 means no string): in both descriptor sets every string index of the device descriptor
  and of the configuration descriptors is 0 or at most \<open>string_count\<close>, and \<open>string_count\<close>
  is the length of the string table.
\<close>

theorem string_indices_one_based:
  "list_all (\<lambda>k. k = 0 \<or> k \<le> string_count usb_descriptor_set)
     (string_indices usb_descriptor_set)
   \<and> list_all (\<lambda>k. k = 0 \<or> k \<le> string_count test_usb_descriptor_set)
     (string_indices test_usb_descriptor_set)
   \<and> unat (string_count usb_descriptor_set) = length (strings usb_descriptor_set)
   \<and> unat (string_count test_usb_descriptor_set) = length (strings test_usb_descriptor_set)"
  by (simp add: string_indices_def usb_descriptor_set_def test_usb_descriptor_set_def
      usb_device_def test_usb_device_def usb_configs_def test_usb_configs_def
      usb_config_def test_usb_config_def usb_strings_def test_usb_strings_def ARRAYSIZE_def)

text \<open>
  C4, as stated, fails: \<open>iProduct\<close> is 2 and \<open>string_count\<close> is 2, so not every index is 0
  or strictly less than \<open>string_count\<close>.
\<close>

theorem iProduct_not_below_string_count:
  "iProduct (device usb_descriptor_set) \<in> set (string_indices usb_descriptor_set)
   \<and> iProduct (device usb_descriptor_set) \<noteq> 0
   \<and> \<not> iProduct (device usb_descriptor_set) < string_count usb_descriptor_set"
  by (simp add: string_indices_def usb_descriptor_set_def
      usb_device_def usb_configs_def usb_config_def usb_strings_def ARRAYSIZE_def)

text \<open>
  C5 at the configuration of test-libfx2/main.c: \<open>bNumInterfaces\<close> is 2 and no interface
  descriptor is appended; the configuration of firmware/fx2usb/main.c has the same items
  and \<open>bNumInterfaces\<close> 0.
\<close>

theorem test_bNumInterfaces_mismatch:
  "bNumInterfaces (desc test_usb_config) = 2 \<and> interface_count test_usb_config = 0
   \<and> bNumInterfaces (desc usb_config) = 0 \<and> interface_count usb_config = 0"
  by (simp add: test_usb_config_def usb_config_def interface_count_def)

text \<open>
  C7. The device descriptor of the firmware, serialised in the USB-standard field order
  and sizes, is the 18-byte sequence: \<open>bLength\<close> 18, \<open>bDescriptorType\<close>, \<open>bcdUSB\<close> 0x0200 low
  byte first, class, subclass and protocol, \<open>bMaxPacketSize0\<close> 64, \<open>idVendor\<close> 0x04b4 and
  \<open>idProduct\<close> 0x8613 low byte first, \<open>bcdDevice\<close>, the three string indices, and
  \<open>bNumConfigurations\<close> 1.
\<close>

theorem usb_device_bytes:
  "serialize_device usb_device =
     [18, USB_DESC_DEVICE, 0x00, 0x02,
      USB_DEV_CLASS_PER_INTERFACE, USB_DEV_SUBCLASS_PER_INTERFACE, USB_DEV_PROTOCOL_PER_INTERFACE,
      64, 0xb4, 0x04, 0x13, 0x86, 0x00, 0x00, 1, 2, 0, 1]
   \<and> length (serialize_device usb_device) = 18"
  by (simp add: serialize_device_def usb_device_def le16_def sizeof_usb_desc_device_value)

section \<open>The Control-Dispatch Loop: lemmas\<close>

lemma wait_SUDAV_set:
  "USBIRQ m AND SUDAV ext \<noteq> 0 \<Longrightarrow>
   wait_SUDAV ext tr m = Some (tr @ [Read_USBIRQ (USBIRQ m)], m)"
  by (subst wait_SUDAV.simps) simp

lemma dispatch_loop_body_set:
  "USBIRQ m AND SUDAV ext \<noteq> 0 \<Longrightarrow>
   dispatch_loop_body ext tr m = Some (tr @ pass_events ext m, pass_state ext m)"
  by (simp add: dispatch_loop_body_def wait_SUDAV_set pass_events_def pass_state_def Let_def
      pre_marker_def)

lemma USBIRQ_pre_marker: "USBIRQ (pre_marker m) = USBIRQ m"
  by (simp add: pre_marker_def)

lemma USBIRQ_post_marker: "USBIRQ (post_marker m) = USBIRQ m"
  by (simp add: post_marker_def)

lemma calls_append: "calls (xs @ ys) = calls xs + calls ys"
  by (simp add: calls_def)

lemma reads_append: "reads (xs @ ys) = reads xs + reads ys"
  by (simp add: reads_def)

lemma written_cells_append: "written_cells (xs @ ys) = written_cells xs @ written_cells ys"
  by (induction xs rule: written_cells.induct) simp_all

lemma pass_events_counts:
  "calls (pass_events ext m) = 1"
  "reads (pass_events ext m) = 1"
  "written_cells (pass_events ext m) = [1, 2]"
  by (simp_all add: pass_events_def calls_def reads_def)

text \<open>
  With a handler that keeps the bit set, every pass finds it set at its first read: \<open>n\<close>
  passes add \<open>n\<close> calls and \<open>n\<close> reads to the trace and write the cells 1 and 2 only.
\<close>

lemma dispatch_run_stuck:
  assumes keep:
    "\<forall>x. USBIRQ x AND SUDAV ext \<noteq> 0 \<longrightarrow> USBIRQ (isr_SUDAV ext x) AND SUDAV ext \<noteq> 0"
  shows "USBIRQ m AND SUDAV ext \<noteq> 0 \<Longrightarrow>
    \<exists>tr'. dispatch_run ext n tr m = Some (tr @ tr', (pass_state ext ^^ n) m)
       \<and> calls tr' = n \<and> reads tr' = n \<and> set (written_cells tr') \<subseteq> {1, 2}"
proof (induction n arbitrary: tr m)
  case 0
  then show ?case by (simp add: calls_def reads_def)
next
  case (Suc n)
  have still: "USBIRQ (pass_state ext m) AND SUDAV ext \<noteq> 0"
    using keep Suc.prems by (simp add: pass_state_def USBIRQ_pre_marker USBIRQ_post_marker)
  from Suc.IH [OF still, of "tr @ pass_events ext m"]
  obtain tr' where run: "dispatch_run ext n (tr @ pass_events ext m) (pass_state ext m)
        = Some ((tr @ pass_events ext m) @ tr', (pass_state ext ^^ n) (pass_state ext m))"
    and c: "calls tr' = n" and r: "reads tr' = n" and w: "set (written_cells tr') \<subseteq> {1, 2}"
    by blast
  have "dispatch_run ext (Suc n) tr m
          = Some (tr @ (pass_events ext m @ tr'), (pass_state ext ^^ Suc n) m)"
    using run by (simp add: dispatch_loop_body_set [OF Suc.prems] funpow_swap1)
  moreover have "calls (pass_events ext m @ tr') = Suc n"
    by (simp add: calls_append pass_events_counts c)
  moreover have "reads (pass_events ext m @ tr') = Suc n"
    by (simp add: reads_append pass_events_counts r)
  moreover have "set (written_cells (pass_events ext m @ tr')) \<subseteq> {1, 2}"
    using w by (simp add: written_cells_append pass_events_counts)
  ultimately show ?case by blast
qed

section \<open>The Control-Dispatch Loop: claims\<close>

text \<open>
  C1. Whenever the SUDAV bit is set in the interrupt-status register, one pass of the loop
  of \<open>main\<close> reads the register once, performs the pre-handler marker write
  \<open>scratch[1] = scratch[0]\<close>, calls \<open>isr_SUDAV\<close> once on the machine so marked, and
  performs the post-handler marker write \<open>scratch[2] = scratch[0]\<close> on the machine that
  the handler returns, in this order and nothing else; the register is read again only by
  the next pass. The machines are written out: \<open>m1\<close> is the machine after the first
  marker write, \<open>m2\<close> the one the handler returns, \<open>m3\<close> the one after the second marker
  write, with which the pass ends.
\<close>

theorem dispatch_pass_once:
  assumes "USBIRQ m AND SUDAV ext \<noteq> 0"
  shows "(let m1 = m\<lparr>scratch := (scratch m)(1 := scratch m 0)\<rparr>;
              m2 = isr_SUDAV ext m1;
              m3 = m2\<lparr>scratch := (scratch m2)(2 := scratch m2 0)\<rparr>
          in dispatch_loop_body ext tr m =
               Some (tr @ [Read_USBIRQ (USBIRQ m),
                           Write_scratch 1 (scratch m 0),
                           Call_isr_SUDAV,
                           Write_scratch 2 (scratch m2 0)],
                     m3)
             \<and> scratch m1 1 = scratch m 0 \<and> scratch m1 0 = scratch m 0
             \<and> scratch m3 2 = scratch m2 0 \<and> scratch m3 0 = scratch m2 0)"
  using dispatch_loop_body_set [OF assms, of tr]
  by (simp add: pass_events_def pass_state_def pre_marker_def post_marker_def Let_def)

theorem dispatch_pass_once_witness:
  "map_option fst (dispatch_loop_body clearing_extern [] sample_fx2) =
     Some [Read_USBIRQ 1, Write_scratch 1 0x5A, Call_isr_SUDAV, Write_scratch 2 0xA5]
   \<and> map_option (\<lambda>r. scratch (snd r) 0) (dispatch_loop_body clearing_extern [] sample_fx2)
       = Some 0xA5
   \<and> map_option (\<lambda>r. scratch (snd r) 1) (dispatch_loop_body clearing_extern [] sample_fx2)
       = Some 0x5A
   \<and> map_option (\<lambda>r. scratch (snd r) 2) (dispatch_loop_body clearing_extern [] sample_fx2)
       = Some 0xA5
   \<and> map_option (\<lambda>r. scratch (snd r) 3) (dispatch_loop_body clearing_extern [] sample_fx2)
       = Some 0
   \<and> map_option (\<lambda>r. USBIRQ (snd r)) (dispatch_loop_body clearing_extern [] sample_fx2)
       = Some 0"
proof -
  have bit_set: "USBIRQ sample_fx2 AND SUDAV clearing_extern \<noteq> 0"
    by (simp add: sample_fx2_def clearing_extern_def)
  show ?thesis
    using dispatch_pass_once [OF bit_set, of "[]"]
    by (simp add: sample_fx2_def clearing_extern_def Let_def)
qed

text \<open>
  C6. If \<open>isr_SUDAV\<close> never clears the SUDAV bit and the bit is set, then each of the
  first \<open>n\<close> passes of the loop calls the handler: the trace of \<open>n\<close> passes has \<open>n\<close> calls
  and \<open>n\<close> reads of the register, and the machine is the result of \<open>n\<close> times pre-marker,
  handler, post-marker. The writes of the loop body are to \<open>scratch[1]\<close> and \<open>scratch[2]\<close>
  only: the marker writes leave the Descriptor Set, and every other cell of \<open>scratch\<close>, as
  they were.
\<close>

theorem dispatch_livelock_frame:
  assumes "\<forall>x. USBIRQ x AND SUDAV ext \<noteq> 0 \<longrightarrow> USBIRQ (isr_SUDAV ext x) AND SUDAV ext \<noteq> 0"
    and "USBIRQ m AND SUDAV ext \<noteq> 0"
  shows "(\<exists>tr. dispatch_run ext n [] m = Some (tr, (pass_state ext ^^ n) m)
            \<and> calls tr = n \<and> reads tr = n \<and> set (written_cells tr) \<subseteq> {1, 2})
       \<and> descriptors (pre_marker x) = descriptors x
       \<and> descriptors (post_marker x) = descriptors x
       \<and> (\<forall>k. k \<noteq> 1 \<longrightarrow> scratch (pre_marker x) k = scratch x k)
       \<and> (\<forall>k. k \<noteq> 2 \<longrightarrow> scratch (post_marker x) k = scratch x k)"
proof -
  have "\<exists>tr. dispatch_run ext n [] m = Some (tr, (pass_state ext ^^ n) m)
            \<and> calls tr = n \<and> reads tr = n \<and> set (written_cells tr) \<subseteq> {1, 2}"
    using dispatch_run_stuck [OF assms, of n "[]"] by simp
  then show ?thesis
    by (simp add: pre_marker_def post_marker_def)
qed

theorem dispatch_livelock_frame_witness:
  "map_option (calls \<circ> fst) (dispatch_run stuck_extern 3 [] sample_fx2) = Some 3
   \<and> map_option (descriptors \<circ> snd) (dispatch_run stuck_extern 3 [] sample_fx2)
       = Some usb_descriptor_set"
proof -
  have keep: "\<forall>x. USBIRQ x AND SUDAV stuck_extern \<noteq> 0 \<longrightarrow>
      USBIRQ (isr_SUDAV stuck_extern x) AND SUDAV stuck_extern \<noteq> 0"
    by (simp add: stuck_extern_def)
  have bit_set: "USBIRQ sample_fx2 AND SUDAV stuck_extern \<noteq> 0"
    by (simp add: sample_fx2_def stuck_extern_def)
  have final: "descriptors ((pass_state stuck_extern ^^ 3) sample_fx2) = usb_descriptor_set"
    by (simp add: numeral_3_eq_3 pass_state_def stuck_extern_def pre_marker_def post_marker_def
        sample_fx2_def)
  from dispatch_livelock_frame [OF keep bit_set, of 3 sample_fx2]
  obtain tr where
    "dispatch_run stuck_extern 3 [] sample_fx2 = Some (tr, (pass_state stuck_extern ^^ 3) sample_fx2)"
    and "calls tr = 3"
    by blast
  then show ?thesis
    using final by simp
qed


end
